theory Spec2Isabelle
  imports Main
begin

section \<open>The connection bootstrap of \<^verbatim>\<open>main.c\<close>\<close>

text \<open>
  The program is one translation unit:
  \<^verbatim>\<open>
  #include "logging.h"
  #include "network.h"

  int main()
  {
  #ifdef ENABLE_NETWORKING
      printDebug("Connecting to network.");
      makeConnection();
  #else
      #error "Network connection disabled!"
  #endif
  }
  \<close>
  It has a build-time part (the conditional compilation) and, when that part lets the
  translation through, a run-time part (the body of \<open>main\<close>). Both are modelled here.
  The two headers are not part of the sources, so \<open>printDebug\<close> and \<open>makeConnection\<close>
  are parameters of the model.
\<close>

subsection \<open>External calls and the calls a run makes\<close>

text \<open>
  A call of an external C function runs on the state of the world and either returns a
  value together with the world as it left it, or does not return to its caller (it blocks
  forever or ends the process itself): that is \<open>None\<close>.
\<close>

type_synonym ('w, 'r) extern = "'w \<Rightarrow> ('r \<times> 'w) option"

text \<open>The calls \<open>main\<close> can be seen to make, with the argument it passes.\<close>

datatype event = PrintDebug string | MakeConnection

text \<open>
  A piece of the program extends the list of calls made so far and either yields a value
  and a world, or never gets to its end.
\<close>

type_synonym ('w, 'r) prog = "event list \<Rightarrow> 'w \<Rightarrow> event list \<times> ('r \<times> 'w) option"

definition ret :: "'r \<Rightarrow> ('w, 'r) prog" where
  "ret x t w = (t, Some (x, w))"

definition call :: "event \<Rightarrow> ('w, 'r) extern \<Rightarrow> ('w, 'r) prog" where
  "call e f t w = (t @ [e], f w)"

text \<open>Sequencing of statements: the second runs only when the first has returned.\<close>

definition andthen :: "('w, 'r) prog \<Rightarrow> ('r \<Rightarrow> ('w, 's) prog) \<Rightarrow> ('w, 's) prog" where
  "andthen p k t w =
     (case p t w of
        (t', None) \<Rightarrow> (t', None)
      | (t', Some (x, w')) \<Rightarrow> k x t' w')"

subsection \<open>The body of \<open>main\<close>\<close>

text \<open>
  The statement \<^verbatim>\<open>printDebug("Connecting to network.");\<close> and the statement
  \<^verbatim>\<open>makeConnection();\<close>: expression statements, whose values are dropped.
  Control then reaches the closing brace of \<open>main\<close>, which in C (since C99) returns 0.
\<close>

definition main :: "(string \<Rightarrow> ('w, 'a) extern) \<Rightarrow> ('w, 'c) extern \<Rightarrow> ('w, int) prog" where
  "main printDebug makeConnection =
     andthen (call (PrintDebug ''Connecting to network.'') (printDebug ''Connecting to network.''))
       (\<lambda>_. andthen (call MakeConnection makeConnection)
         (\<lambda>_. ret 0))"

subsection \<open>The build\<close>

text \<open>
  The macros defined where the \<^verbatim>\<open>#ifdef\<close> is read: a macro name is mapped to its
  replacement text. \<^verbatim>\<open>#ifdef\<close> asks whether the name is defined, not what it is defined as.
  The build yields the diagnostic of \<^verbatim>\<open>#error\<close> and no program, or the program.
\<close>

type_synonym macros = "string \<rightharpoonup> string"

type_synonym ('w, 'a, 'c) entry =
  "(string \<Rightarrow> ('w, 'a) extern) \<Rightarrow> ('w, 'c) extern \<Rightarrow> ('w, int) prog"

definition build :: "macros \<Rightarrow> string + ('w, 'a, 'c) entry" where
  "build defs =
     (case defs ''ENABLE_NETWORKING'' of
        Some _ \<Rightarrow> Inr main
      | None \<Rightarrow> Inl ''Network connection disabled!'')"

subsection \<open>A run of the process\<close>

text \<open>
  The C start-up code calls the entry point once, with no call made yet. \<open>main\<close> is
  declared without parameters, so the arguments of the process do not reach it.
\<close>

definition start :: "string list \<Rightarrow> ('w, 'a, 'c) entry
    \<Rightarrow> (string \<Rightarrow> ('w, 'a) extern) \<Rightarrow> ('w, 'c) extern \<Rightarrow> 'w
    \<Rightarrow> event list \<times> (int \<times> 'w) option" where
  "start argv m printDebug makeConnection w = m printDebug makeConnection [] w"

text \<open>What a run shows: the calls made, the exit status and the world left behind.\<close>

definition calls :: "event list \<times> (int \<times> 'w) option \<Rightarrow> event list" where
  "calls r = fst r"

definition exit_status :: "event list \<times> (int \<times> 'w) option \<Rightarrow> int option" where
  "exit_status r = map_option fst (snd r)"

definition final_world :: "event list \<times> (int \<times> 'w) option \<Rightarrow> 'w option" where
  "final_world r = map_option snd (snd r)"

text \<open>An exit status of 0 reports success to the host environment, any other failure.\<close>

definition indicates_success :: "int \<Rightarrow> bool" where
  "indicates_success s = (s = 0)"

subsection \<open>Stub facilities\<close>

text \<open>
  Modelled from the spec: \<^verbatim>\<open>network.h\<close> is missing, so the signal of the connection
  facility follows the spec's \<open>establish() -> Result<Unit, ConnectionError>\<close>.
\<close>

datatype conn_result = Success | ConnectionFailed

text \<open>Stubs over a world that counts the calls of each facility.\<close>

record counters =
  logged :: "string list"
  connects :: nat

definition stub_printDebug :: "string \<Rightarrow> (counters, unit) extern" where
  "stub_printDebug msg w = Some ((), w\<lparr>logged := logged w @ [msg]\<rparr>)"

definition stub_connect :: "conn_result \<Rightarrow> (counters, conn_result) extern" where
  "stub_connect res w = Some (res, w\<lparr>connects := Suc (connects w)\<rparr>)"

definition stub_printDebug_strict :: "string \<Rightarrow> (counters, unit) extern" where
  "stub_printDebug_strict msg w =
     (if msg = ''Connecting to network.'' then stub_printDebug msg w else None)"

text \<open>A logging stub that reports an error to its caller and records nothing.\<close>

definition stub_printDebug_failing :: "string \<Rightarrow> (counters, int) extern" where
  "stub_printDebug_failing msg w = Some (- 1, w)"

definition fresh :: counters where
  "fresh = \<lparr>logged = [], connects = 0\<rparr>"

section \<open>Properties\<close>

subsection \<open>The three ways a run of \<open>main\<close> can go\<close>

lemma main_log_stuck:
  assumes "printDebug ''Connecting to network.'' w = None"
  shows "main printDebug makeConnection t w = (t @ [PrintDebug ''Connecting to network.''], None)"
  using assms by (simp add: main_def andthen_def call_def)

lemma main_connect_stuck:
  assumes "printDebug ''Connecting to network.'' w = Some (r, w1)"
    and "makeConnection w1 = None"
  shows "main printDebug makeConnection t w =
    (t @ [PrintDebug ''Connecting to network.'', MakeConnection], None)"
  using assms by (simp add: main_def andthen_def call_def)

lemma main_returns:
  assumes "printDebug ''Connecting to network.'' w = Some (r, w1)"
    and "makeConnection w1 = Some (c, w2)"
  shows "main printDebug makeConnection t w =
    (t @ [PrintDebug ''Connecting to network.'', MakeConnection], Some (0, w2))"
  using assms by (simp add: main_def andthen_def call_def ret_def)

lemma start_main:
  "start argv main printDebug makeConnection w =
    (case printDebug ''Connecting to network.'' w of
       None \<Rightarrow> ([PrintDebug ''Connecting to network.''], None)
     | Some (r, w1) \<Rightarrow>
         ([PrintDebug ''Connecting to network.'', MakeConnection],
          map_option (\<lambda>(c, w2). (0, w2)) (makeConnection w1)))"
  by (simp add: start_def main_def andthen_def call_def ret_def
      split: option.splits prod.splits)

lemma build_enabled:
  assumes "build defs = Inr m"
  shows "m = main"
  using assms by (simp add: build_def split: option.splits)


subsection \<open>Order and number of the calls\<close>

text \<open>
  C1. In every execution of a build in which \<open>ENABLE_NETWORKING\<close> is defined, the calls
  made are exactly one call of \<open>printDebug\<close> followed by exactly one call of
  \<open>makeConnection\<close>, in this order, with nothing repeated or interleaved; and the two
  facilities are really run, in this order: the connection facility runs once, on the
  world the logging facility left, and the run ends as the connection facility ended.
  The logging call is taken to return to its caller, which is the contract of the logging
  facility (non-blocking and non-failing for the caller).
\<close>

theorem log_once_then_connect_once:
  assumes "build defs = Inr m"
    and "printDebug ''Connecting to network.'' w = Some (r, w1)"
  shows "calls (start argv m printDebug makeConnection w) =
      [PrintDebug ''Connecting to network.'', MakeConnection]
    \<and> snd (start argv m printDebug makeConnection w) =
        map_option (\<lambda>(c, w2). (0, w2)) (makeConnection w1)"
proof -
  from assms(1) have m: "m = main" by (rule build_enabled)
  show ?thesis
  proof (cases "makeConnection w1")
    case None
    with assms(2) show ?thesis
      by (simp add: m calls_def start_def main_connect_stuck)
  next
    case (Some p)
    then obtain c w2 where "makeConnection w1 = Some (c, w2)" by (cases p) simp
    with assms(2) show ?thesis
      by (simp add: m calls_def start_def main_returns)
  qed
qed

theorem log_once_then_connect_once_witness:
  "build [''ENABLE_NETWORKING'' \<mapsto> ''1''] = (Inr main :: string + (counters, unit, conn_result) entry)
   \<and> stub_printDebug ''Connecting to network.'' fresh =
       Some ((), \<lparr>logged = [''Connecting to network.''], connects = 0\<rparr>)
   \<and> calls (start [] main stub_printDebug (stub_connect Success) fresh) =
       [PrintDebug ''Connecting to network.'', MakeConnection]
   \<and> snd (start [] main stub_printDebug (stub_connect Success) fresh) =
       Some (0, \<lparr>logged = [''Connecting to network.''], connects = 1\<rparr>)"
proof -
  have b: "build [''ENABLE_NETWORKING'' \<mapsto> ''1''] =
      (Inr main :: string + (counters, unit, conn_result) entry)"
    by (simp add: build_def)
  have l: "stub_printDebug ''Connecting to network.'' fresh =
      Some ((), \<lparr>logged = [''Connecting to network.''], connects = 0\<rparr>)"
    by (simp add: stub_printDebug_def fresh_def)
  note t = log_once_then_connect_once
      [where printDebug = stub_printDebug and w = fresh and argv = "[]"
        and makeConnection = "stub_connect Success", OF b l]
  from t have "calls (start [] main stub_printDebug (stub_connect Success) fresh) =
      [PrintDebug ''Connecting to network.'', MakeConnection]"
    by blast
  moreover from t have "snd (start [] main stub_printDebug (stub_connect Success) fresh) =
      map_option (\<lambda>(c, w2). (0, w2))
        (stub_connect Success \<lparr>logged = [''Connecting to network.''], connects = 0\<rparr>)"
    by blast
  then have "snd (start [] main stub_printDebug (stub_connect Success) fresh) =
      Some (0, \<lparr>logged = [''Connecting to network.''], connects = 1\<rparr>)"
    by (simp add: stub_connect_def)
  ultimately show ?thesis using b l by blast
qed


subsection \<open>The build gate\<close>

text \<open>
  C2, as stated, fails: a flag that is present with a false value still builds. With
  \<open>ENABLE_NETWORKING\<close> defined as \<open>0\<close> the \<^verbatim>\<open>#ifdef\<close> holds and the build yields the
  program.
\<close>

theorem build_with_flag_zero_succeeds:
  "build [''ENABLE_NETWORKING'' \<mapsto> ''0''] =
    (Inr main :: string + (counters, unit, conn_result) entry)"
  by (simp add: build_def)

text \<open>
  C2, amended. When \<open>ENABLE_NETWORKING\<close> is not defined, the build fails with the
  diagnostic \<open>Network connection disabled!\<close> and yields no program; when it is
  defined, whatever its replacement text, the build yields the program.
\<close>

theorem build_fails_iff_flag_undefined:
  fixes defs :: macros and m :: "('w, 'a, 'c) entry"
  shows "(defs ''ENABLE_NETWORKING'' = None \<longrightarrow>
            (build defs :: string + ('w, 'a, 'c) entry) = Inl ''Network connection disabled!''
            \<and> build defs \<noteq> Inr m)
       \<and> (defs ''ENABLE_NETWORKING'' = Some v \<longrightarrow>
            (build defs :: string + ('w, 'a, 'c) entry) = Inr main)"
  by (simp add: build_def)

theorem build_fails_iff_flag_undefined_witness:
  "(Map.empty :: macros) ''ENABLE_NETWORKING'' = None
   \<and> build Map.empty =
       (Inl ''Network connection disabled!'' :: string + (counters, unit, conn_result) entry)
   \<and> build Map.empty \<noteq> (Inr main :: string + (counters, unit, conn_result) entry)
   \<and> [''ENABLE_NETWORKING'' \<mapsto> ''false''] ''ENABLE_NETWORKING'' = Some ''false''
   \<and> build [''ENABLE_NETWORKING'' \<mapsto> ''false''] =
       (Inr main :: string + (counters, unit, conn_result) entry)"
  using build_fails_iff_flag_undefined
      [where defs = Map.empty and m = "main :: (counters, unit, conn_result) entry"]
    build_fails_iff_flag_undefined
      [where defs = "[''ENABLE_NETWORKING'' \<mapsto> ''false'']" and v = "''false''"
        and m = "main :: (counters, unit, conn_result) entry"]
  by simp

subsection \<open>The exit status\<close>

text \<open>
  C3, as stated, fails: with a connection facility that returns the failure signal, the
  process exits with status 0, which indicates success.
\<close>

theorem failed_connection_exits_with_success:
  "exit_status (start [] main stub_printDebug (stub_connect ConnectionFailed) fresh) = Some 0
   \<and> indicates_success 0"
  by (simp add: start_main exit_status_def indicates_success_def
      stub_printDebug_def stub_connect_def fresh_def)

text \<open>
  C3, amended. Whenever \<open>makeConnection\<close> returns, the process exit indicates success,
  both when the connection facility signals success and when it signals failure by the
  value it returns: the signal does not reach the exit status.
\<close>

theorem exit_indicates_success_on_either_signal:
  fixes makeConnection :: "('w, conn_result) extern"
  assumes "printDebug ''Connecting to network.'' w = Some (r, w1)"
    and "makeConnection w1 = Some (res, w2)"
  shows "\<exists>s. exit_status (start argv main printDebug makeConnection w) = Some s
    \<and> indicates_success s"
  using assms by (simp add: start_main exit_status_def indicates_success_def)

theorem exit_indicates_success_on_either_signal_witness:
  "stub_printDebug ''Connecting to network.'' fresh =
     Some ((), \<lparr>logged = [''Connecting to network.''], connects = 0\<rparr>)
   \<and> stub_connect Success \<lparr>logged = [''Connecting to network.''], connects = 0\<rparr> =
     Some (Success, \<lparr>logged = [''Connecting to network.''], connects = 1\<rparr>)
   \<and> (\<exists>s. exit_status (start [] main stub_printDebug (stub_connect Success) fresh) = Some s
        \<and> indicates_success s)"
proof -
  have l: "stub_printDebug ''Connecting to network.'' fresh =
      Some ((), \<lparr>logged = [''Connecting to network.''], connects = 0\<rparr>)"
    by (simp add: stub_printDebug_def fresh_def)
  have c: "stub_connect Success \<lparr>logged = [''Connecting to network.''], connects = 0\<rparr> =
      Some (Success, \<lparr>logged = [''Connecting to network.''], connects = 1\<rparr>)"
    by (simp add: stub_connect_def)
  from exit_indicates_success_on_either_signal
      [where printDebug = stub_printDebug and w = fresh and argv = "[]"
        and makeConnection = "stub_connect Success", OF l c] l c
  show ?thesis by simp
qed


subsection \<open>The logging call\<close>

text \<open>
  C4. Every execution passes the same constant message, \<open>Connecting to network.\<close>, to
  the logging facility: a call of \<open>printDebug\<close> is among the calls of a run exactly for
  this message; the run goes on from what the logging facility does when applied to this
  message in the world the process starts in (if it does not return, neither does the
  run; if it returns, the connection facility runs on the world it left); and a run
  depends on the logging facility only through what it does with this message.
\<close>

theorem log_message_is_fixed:
  "(PrintDebug msg \<in> set (calls (start argv main printDebug makeConnection w))
      \<longleftrightarrow> msg = ''Connecting to network.'')
   \<and> snd (start argv main printDebug makeConnection w) =
       Option.bind (printDebug ''Connecting to network.'' w)
         (\<lambda>(r, w1). map_option (\<lambda>(c, w2). (0, w2)) (makeConnection w1))
   \<and> (printDebug ''Connecting to network.'' = printDebug' ''Connecting to network.'' \<longrightarrow>
        start argv main printDebug makeConnection w =
        start argv main printDebug' makeConnection w)"
  by (auto simp add: start_main calls_def split: option.splits)

theorem log_message_is_fixed_witness:
  "stub_printDebug ''Connecting to network.'' = stub_printDebug_strict ''Connecting to network.''
   \<and> start [] main stub_printDebug (stub_connect Success) fresh =
     start [] main stub_printDebug_strict (stub_connect Success) fresh
   \<and> PrintDebug ''Connecting to network.''
       \<in> set (calls (start [] main stub_printDebug (stub_connect Success) fresh))
   \<and> final_world (start [] main stub_printDebug (stub_connect Success) fresh) =
       Some \<lparr>logged = [''Connecting to network.''], connects = 1\<rparr>"
proof -
  have e: "stub_printDebug ''Connecting to network.'' =
      stub_printDebug_strict ''Connecting to network.''"
    by (simp add: fun_eq_iff stub_printDebug_strict_def)
  note t = log_message_is_fixed
      [where printDebug = stub_printDebug and printDebug' = stub_printDebug_strict
        and msg = "''Connecting to network.''" and argv = "[]"
        and makeConnection = "stub_connect Success" and w = fresh]
  from t have "PrintDebug ''Connecting to network.''
      \<in> set (calls (start [] main stub_printDebug (stub_connect Success) fresh))"
    by simp
  moreover from t e have "start [] main stub_printDebug (stub_connect Success) fresh =
      start [] main stub_printDebug_strict (stub_connect Success) fresh"
    by blast
  moreover from t have "snd (start [] main stub_printDebug (stub_connect Success) fresh) =
      Option.bind (stub_printDebug ''Connecting to network.'' fresh)
        (\<lambda>(r, w1). map_option (\<lambda>(c, w2). (0, w2)) (stub_connect Success w1))"
    by blast
  then have "final_world (start [] main stub_printDebug (stub_connect Success) fresh) =
      Some \<lparr>logged = [''Connecting to network.''], connects = 1\<rparr>"
    by (simp add: final_world_def stub_printDebug_def stub_connect_def fresh_def)
  ultimately show ?thesis using e by blast
qed

text \<open>
  C5. Whatever the logging call returns, and whatever world it leaves, the connection
  attempt is made, and how the run ends is decided by the connection call alone: if that
  call returns, \<open>main\<close> returns 0.
\<close>

theorem logging_result_never_aborts:
  assumes "printDebug ''Connecting to network.'' w = Some (r, w1)"
  shows "MakeConnection \<in> set (calls (start argv main printDebug makeConnection w))
    \<and> snd (start argv main printDebug makeConnection w) =
        map_option (\<lambda>(c, w2). (0, w2)) (makeConnection w1)"
  using assms by (simp add: start_main calls_def)

theorem logging_result_never_aborts_witness:
  "stub_printDebug_failing ''Connecting to network.'' fresh = Some (- 1, fresh)
   \<and> MakeConnection
       \<in> set (calls (start [] main stub_printDebug_failing (stub_connect Success) fresh))
   \<and> snd (start [] main stub_printDebug_failing (stub_connect Success) fresh) =
       Some (0, \<lparr>logged = [], connects = 1\<rparr>)"
proof -
  have l: "stub_printDebug_failing ''Connecting to network.'' fresh = Some (- 1, fresh)"
    by (simp add: stub_printDebug_failing_def)
  from logging_result_never_aborts
      [where printDebug = stub_printDebug_failing and w = fresh and argv = "[]"
        and makeConnection = "stub_connect Success", OF l] l
  show ?thesis by (simp add: stub_connect_def fresh_def)
qed

subsection \<open>The connection call\<close>




subsection \<open>Effects and input\<close>

text \<open>
  C7. A run has two effects, one debug-log emission and one connection attempt, and
  nothing else: the calls of a run are these two, the world a run leaves is the one the
  connection call left, which started from the one the logging call left, and the
  arguments of the process change nothing.
\<close>

theorem two_effects_and_no_input:
  assumes "printDebug ''Connecting to network.'' w = Some (r, w1)"
  shows "calls (start argv main printDebug makeConnection w) =
      [PrintDebug ''Connecting to network.'', MakeConnection]
    \<and> final_world (start argv main printDebug makeConnection w) =
        map_option snd (makeConnection w1)
    \<and> start argv main printDebug makeConnection w =
        start argv' main printDebug makeConnection w"
  using assms
  by (cases "makeConnection w1") (auto simp add: start_main calls_def final_world_def)

theorem two_effects_and_no_input_witness:
  "stub_printDebug ''Connecting to network.'' fresh =
     Some ((), \<lparr>logged = [''Connecting to network.''], connects = 0\<rparr>)
   \<and> calls (start [''--host'', ''example.org''] main stub_printDebug (stub_connect Success) fresh)
       = [PrintDebug ''Connecting to network.'', MakeConnection]
   \<and> final_world
       (start [''--host'', ''example.org''] main stub_printDebug (stub_connect Success) fresh)
       = Some \<lparr>logged = [''Connecting to network.''], connects = 1\<rparr>
   \<and> start [''--host'', ''example.org''] main stub_printDebug (stub_connect Success) fresh =
       start [] main stub_printDebug (stub_connect Success) fresh"
proof -
  have l: "stub_printDebug ''Connecting to network.'' fresh =
      Some ((), \<lparr>logged = [''Connecting to network.''], connects = 0\<rparr>)"
    by (simp add: stub_printDebug_def fresh_def)
  note t = two_effects_and_no_input
      [where printDebug = stub_printDebug and w = fresh
        and argv = "[''--host'', ''example.org'']" and argv' = "[]"
        and makeConnection = "stub_connect Success", OF l]
  from t have "calls
      (start [''--host'', ''example.org''] main stub_printDebug (stub_connect Success) fresh)
      = [PrintDebug ''Connecting to network.'', MakeConnection]"
    by blast
  moreover from t have "final_world
      (start [''--host'', ''example.org''] main stub_printDebug (stub_connect Success) fresh)
      = map_option snd
          (stub_connect Success \<lparr>logged = [''Connecting to network.''], connects = 0\<rparr>)"
    by blast
  then have "final_world
      (start [''--host'', ''example.org''] main stub_printDebug (stub_connect Success) fresh)
      = Some \<lparr>logged = [''Connecting to network.''], connects = 1\<rparr>"
    by (simp add: stub_connect_def)
  moreover from t have
    "start [''--host'', ''example.org''] main stub_printDebug (stub_connect Success) fresh =
      start [] main stub_printDebug (stub_connect Success) fresh"
    by blast
  ultimately show ?thesis using l by blast
qed

subsection \<open>The end of a run\<close>

text \<open>
  C8. Once the connection call has returned, with whatever value, \<open>main\<close> returns: the
  run is done, the connection call is the last call made, and the world is left as the
  connection call left it.
\<close>

theorem done_after_connection_resolves:
  assumes "printDebug ''Connecting to network.'' w = Some (r, w1)"
    and "makeConnection w1 = Some (c, w2)"
  shows "snd (start argv main printDebug makeConnection w) = Some (0, w2)
    \<and> last (calls (start argv main printDebug makeConnection w)) = MakeConnection"
  using assms by (simp add: start_main calls_def)

theorem done_after_connection_resolves_witness:
  "stub_printDebug ''Connecting to network.'' fresh =
     Some ((), \<lparr>logged = [''Connecting to network.''], connects = 0\<rparr>)
   \<and> stub_connect ConnectionFailed \<lparr>logged = [''Connecting to network.''], connects = 0\<rparr> =
     Some (ConnectionFailed, \<lparr>logged = [''Connecting to network.''], connects = 1\<rparr>)
   \<and> snd (start [] main stub_printDebug (stub_connect ConnectionFailed) fresh) =
       Some (0, \<lparr>logged = [''Connecting to network.''], connects = 1\<rparr>)
   \<and> last (calls (start [] main stub_printDebug (stub_connect ConnectionFailed) fresh)) =
       MakeConnection"
proof -
  have l: "stub_printDebug ''Connecting to network.'' fresh =
      Some ((), \<lparr>logged = [''Connecting to network.''], connects = 0\<rparr>)"
    by (simp add: stub_printDebug_def fresh_def)
  have c: "stub_connect ConnectionFailed
      \<lparr>logged = [''Connecting to network.''], connects = 0\<rparr> =
      Some (ConnectionFailed, \<lparr>logged = [''Connecting to network.''], connects = 1\<rparr>)"
    by (simp add: stub_connect_def)
  from done_after_connection_resolves
      [where printDebug = stub_printDebug and w = fresh and argv = "[]"
        and makeConnection = "stub_connect ConnectionFailed", OF l c] l c
  show ?thesis by blast
qed

text \<open>
  C9. The value \<open>makeConnection\<close> returns is dropped: two runs that differ only in what
  the connection call returns, and in the world it leaves, have the same exit status, 0.
\<close>

theorem exit_status_ignores_connection_result:
  assumes "printDebug ''Connecting to network.'' w = Some (r, w1)"
    and "makeConnection w1 = Some (c, w2)"
    and "makeConnection' w1 = Some (c', w2')"
  shows "exit_status (start argv main printDebug makeConnection w) = Some 0
    \<and> exit_status (start argv main printDebug makeConnection' w) = Some 0"
  using assms by (simp add: start_main exit_status_def)

theorem exit_status_ignores_connection_result_witness:
  "stub_printDebug ''Connecting to network.'' fresh =
     Some ((), \<lparr>logged = [''Connecting to network.''], connects = 0\<rparr>)
   \<and> stub_connect Success \<lparr>logged = [''Connecting to network.''], connects = 0\<rparr> =
     Some (Success, \<lparr>logged = [''Connecting to network.''], connects = 1\<rparr>)
   \<and> stub_connect ConnectionFailed \<lparr>logged = [''Connecting to network.''], connects = 0\<rparr> =
     Some (ConnectionFailed, \<lparr>logged = [''Connecting to network.''], connects = 1\<rparr>)
   \<and> exit_status (start [] main stub_printDebug (stub_connect Success) fresh) = Some 0
   \<and> exit_status (start [] main stub_printDebug (stub_connect ConnectionFailed) fresh) = Some 0"
proof -
  have l: "stub_printDebug ''Connecting to network.'' fresh =
      Some ((), \<lparr>logged = [''Connecting to network.''], connects = 0\<rparr>)"
    by (simp add: stub_printDebug_def fresh_def)
  have c: "stub_connect Success \<lparr>logged = [''Connecting to network.''], connects = 0\<rparr> =
      Some (Success, \<lparr>logged = [''Connecting to network.''], connects = 1\<rparr>)"
    by (simp add: stub_connect_def)
  have c': "stub_connect ConnectionFailed
      \<lparr>logged = [''Connecting to network.''], connects = 0\<rparr> =
      Some (ConnectionFailed, \<lparr>logged = [''Connecting to network.''], connects = 1\<rparr>)"
    by (simp add: stub_connect_def)
  from exit_status_ignores_connection_result
      [where printDebug = stub_printDebug and w = fresh and argv = "[]"
        and makeConnection = "stub_connect Success"
        and makeConnection' = "stub_connect ConnectionFailed", OF l c c'] l c c'
  show ?thesis by blast
qed

text \<open>
  C10. \<open>main\<close> is two calls in a row and the end of the function: if the call of
  \<open>printDebug\<close> and the call of \<open>makeConnection\<close> each return, \<open>main\<close> returns, having
  made two calls.
\<close>

theorem main_terminates:
  assumes "printDebug ''Connecting to network.'' w = Some (r, w1)"
    and "makeConnection w1 = Some (c, w2)"
  shows "(\<exists>s w'. snd (start argv main printDebug makeConnection w) = Some (s, w'))
    \<and> length (calls (start argv main printDebug makeConnection w)) = 2"
  using assms by (simp add: start_main calls_def)

theorem main_terminates_witness:
  "stub_printDebug ''Connecting to network.'' fresh =
     Some ((), \<lparr>logged = [''Connecting to network.''], connects = 0\<rparr>)
   \<and> stub_connect Success \<lparr>logged = [''Connecting to network.''], connects = 0\<rparr> =
     Some (Success, \<lparr>logged = [''Connecting to network.''], connects = 1\<rparr>)
   \<and> (\<exists>s w'. snd (start [] main stub_printDebug (stub_connect Success) fresh) = Some (s, w'))
   \<and> length (calls (start [] main stub_printDebug (stub_connect Success) fresh)) = 2"
proof -
  have l: "stub_printDebug ''Connecting to network.'' fresh =
      Some ((), \<lparr>logged = [''Connecting to network.''], connects = 0\<rparr>)"
    by (simp add: stub_printDebug_def fresh_def)
  have c: "stub_connect Success \<lparr>logged = [''Connecting to network.''], connects = 0\<rparr> =
      Some (Success, \<lparr>logged = [''Connecting to network.''], connects = 1\<rparr>)"
    by (simp add: stub_connect_def)
  from main_terminates
      [where printDebug = stub_printDebug and w = fresh and argv = "[]"
        and makeConnection = "stub_connect Success", OF l c] l c
  show ?thesis by blast
qed

end
